theory Spec2Isabelle
  imports Main
begin

section \<open>Python strings\<close>

text \<open>
  A Python \<open>str\<close> is modelled as the list of its code points, restricted to the code
  points below 256, so that a \<open>char\<close> is one code point.
\<close>

definition py_isspace :: "char \<Rightarrow> bool" where
  \<comment> \<open>The code points below 256 that \<open>str.strip()\<close> removes: tab, line feed, vertical
      tab, form feed, carriage return, the separators 28 to 31, space, NEL and the
      no-break space.\<close>
  "py_isspace c =
     (let n = of_char c :: nat
      in (9 \<le> n \<and> n \<le> 13) \<or> (28 \<le> n \<and> n \<le> 32) \<or> n = 133 \<or> n = 160)"

definition str_strip :: "string \<Rightarrow> string" where
  \<comment> \<open>\<open>s.strip()\<close>\<close>
  "str_strip s = rev (dropWhile py_isspace (rev (dropWhile py_isspace s)))"

function replace_from :: "string \<Rightarrow> string \<Rightarrow> string \<Rightarrow> string" where
  \<comment> \<open>\<open>s.replace(old, new)\<close> for a non-empty \<open>old\<close>: the occurrences are found from the
      left and do not overlap.\<close>
  "replace_from old new [] = []"
| "replace_from old new (c # cs) =
     (if old \<noteq> [] \<and> take (length old) (c # cs) = old
      then new @ replace_from old new (drop (length old) (c # cs))
      else c # replace_from old new cs)"
  by pat_completeness auto
termination
  by (relation "measure (\<lambda>(old, new, s). length s)") (auto simp: neq_Nil_conv)

definition str_replace :: "string \<Rightarrow> string \<Rightarrow> string \<Rightarrow> string" where
  \<comment> \<open>\<open>s.replace(old, new)\<close>; an empty \<open>old\<close> matches before every character and at
      the end.\<close>
  "str_replace s old new =
     (if old = [] then new @ concat (map (\<lambda>c. c # new) s) else replace_from old new s)"

fun str_join :: "string \<Rightarrow> string list \<Rightarrow> string" where
  \<comment> \<open>\<open>sep.join(xs)\<close> on a list of \<open>str\<close>\<close>
  "str_join sep [] = []"
| "str_join sep [x] = x"
| "str_join sep (x # y # ys) = x @ sep @ str_join sep (y # ys)"

definition clean_reply :: "string \<Rightarrow> string" where
  \<comment> \<open>line 84: \<open>response.text.strip().replace("```json", "").replace("```", "").strip()\<close>\<close>
  "clean_reply t =
     str_strip (str_replace (str_replace (str_strip t) ''```json'' '''') ''```'' '''')"

section \<open>Python values and exceptions\<close>

datatype pyfloat = Finite int int | Infinity bool | NaN

datatype pyval =
    PNone
  | PBool bool
  | PInt int
  | PFloat pyfloat
  | PStr string
  | PList "pyval list"
  | PDict "(string \<times> pyval) list"

text \<open>
  \<open>pyval\<close> holds what \<open>json.loads\<close> can return: \<open>None\<close>, booleans, integers, floats
  (\<open>Finite m e\<close> is \<open>m * 2 ** e\<close>), strings, lists, and dicts with string keys (a dict is
  the list of its items; a lookup takes the first item with the key).
\<close>

datatype exn =
    UnboundLocalError string
  | KeyError string
  | TypeError
  | IndexError
  | LibraryError string

text \<open>
  \<open>LibraryError msg\<close> is any exception raised inside a library call
  (\<open>generate_content\<close>, \<open>response.text\<close>, \<open>json.loads\<close>, \<open>requests.post\<close>,
  \<open>response.json\<close>, \<open>Image.open\<close>, the speech client), with its message. All five are
  subclasses of \<open>Exception\<close>. A function that can raise returns \<open>exn + 'a\<close>.
\<close>

fun truthy :: "pyval \<Rightarrow> bool" where
  \<comment> \<open>the truth value Python gives a value in \<open>if x:\<close>\<close>
  "truthy PNone = False"
| "truthy (PBool b) = b"
| "truthy (PInt i) = (i \<noteq> 0)"
| "truthy (PFloat (Finite m e)) = (m \<noteq> 0)"
| "truthy (PFloat (Infinity b)) = True"
| "truthy (PFloat NaN) = True"
| "truthy (PStr s) = (s \<noteq> [])"
| "truthy (PList xs) = (xs \<noteq> [])"
| "truthy (PDict kvs) = (kvs \<noteq> [])"

fun subscript :: "pyval \<Rightarrow> string \<Rightarrow> exn + pyval" where
  \<comment> \<open>\<open>x[key]\<close> with a string key: a dict looks the key up, every other value raises
      \<open>TypeError\<close>\<close>
  "subscript (PDict kvs) key =
     (case map_of kvs key of None \<Rightarrow> Inl (KeyError key) | Some v \<Rightarrow> Inr v)"
| "subscript v key = Inl TypeError"

fun subscript0 :: "pyval \<Rightarrow> exn + pyval" where
  \<comment> \<open>\<open>x[0]\<close>\<close>
  "subscript0 (PList []) = Inl IndexError"
| "subscript0 (PList (x # xs)) = Inr x"
| "subscript0 (PStr []) = Inl IndexError"
| "subscript0 (PStr (c # cs)) = Inr (PStr [c])"
| "subscript0 (PDict kvs) = Inl (KeyError ''0'')"
| "subscript0 v = Inl TypeError"

fun str_items :: "pyval list \<Rightarrow> exn + string list" where
  \<comment> \<open>the items of a list handed to \<open>str.join\<close>, which raises \<open>TypeError\<close> at an item
      that is not a \<open>str\<close>\<close>
  "str_items [] = Inr []"
| "str_items (PStr s # xs) =
     (case str_items xs of Inl e \<Rightarrow> Inl e | Inr ys \<Rightarrow> Inr (s # ys))"
| "str_items (v # xs) = Inl TypeError"

definition py_join :: "string \<Rightarrow> pyval list \<Rightarrow> exn + string" where
  \<comment> \<open>\<open>sep.join(xs)\<close>\<close>
  "py_join sep xs =
     (case str_items xs of Inl e \<Rightarrow> Inl e | Inr ys \<Rightarrow> Inr (str_join sep ys))"

section \<open>Session state, credentials and the outside world\<close>

type_synonym image = nat
  \<comment> \<open>a handle for a decoded picture\<close>

record story_chapter =
  ch_text :: pyval
  ch_image :: "image option"

datatype stage = world_forge | story_start | story_cycle

record session =
  app_stage :: stage
  world_bible :: "string option"
  story_chapters :: "story_chapter list"
  latest_choices :: pyval

text \<open>
  \<open>st.session_state\<close> holds the four keys together (lines 199 to 203) or, after the
  restart button has deleted every key, none of them: it is a \<open>session option\<close>.
\<close>

definition initial_session :: session where
  \<comment> \<open>lines 200 to 203\<close>
  "initial_session =
     \<lparr>app_stage = world_forge, world_bible = None, story_chapters = [],
      latest_choices = PList []\<rparr>"

record api_keys =
  google_api_key :: "string option"
  stability_api_key :: "string option"
  elevenlabs_api_key :: "string option"

fun key_set :: "string option \<Rightarrow> bool" where
  \<comment> \<open>\<open>if KEY:\<close> on a key that is \<open>None\<close> or a string\<close>
  "key_set None = False"
| "key_set (Some k) = (k \<noteq> [])"

datatype http_outcome =
    PostFails exn
  | PostResponse nat "exn + pyval"

text \<open>
  \<open>PostFails e\<close>: \<open>requests.post\<close> raised \<open>e\<close>. \<open>PostResponse status body\<close>: it returned a
  response with that status code, on which \<open>.json()\<close> returns or raises \<open>body\<close>.
\<close>

record env =
  loads :: "string \<Rightarrow> exn + pyval"
  generate_content :: "exn + (exn + string)"
  post :: http_outcome
  image_open :: "pyval \<Rightarrow> exn + image"
  text_to_speech :: "exn + unit"
  music_file_exists :: bool

text \<open>
  What the libraries and services do during one run of the script: \<open>loads\<close> is
  \<open>json.loads\<close>; \<open>generate_content\<close> is the one call of \<open>model.generate_content\<close> a run
  can make, which raises or returns a response whose \<open>.text\<close> is a string or raises;
  \<open>post\<close> is the one call of \<open>requests.post\<close>; \<open>image_open\<close> is
  \<open>Image.open(io.BytesIO(base64.b64decode(x)))\<close>; \<open>text_to_speech\<close> is the speech client
  and the encoding of its audio.
\<close>

datatype message =
    GoogleKeyNotFound
  | ElevenLabsKeyNotFound
  | ErrorProcessingAIResponse exn
  | ShowCode string
  | StabilityKeyNotFound
  | StabilityHttpError nat
  | ShowJson pyval
  | StabilityError exn
  | NarrationKeyMissing
  | MusicFileNotFound
  | AudioPlayer
  | AudioError exn

datatype request =
    WorldBiblePrompt string string string
  | ChapterPrompt pyval string "string option"
  | ImagePrompt pyval
  | SpeechText pyval

text \<open>
  A \<open>message\<close> is one \<open>st.error\<close>, \<open>st.warning\<close>, \<open>st.code\<close>, \<open>st.json\<close> or
  \<open>components.html\<close> element, in the order of the source lines 43, 47, 88, 89, 96, 124,
  125, 128, 137, 156, 159 and 191. A \<open>request\<close> is a call to a service:
  \<open>WorldBiblePrompt theme archetype contradiction\<close> and
  \<open>ChapterPrompt user_choice story_context world_bible\<close> stand for the prompts of lines 54
  and 70, which interpolate these values.
\<close>

datatype effect = Show message | Call request

fun shown :: "effect list \<Rightarrow> message list" where
  "shown [] = []"
| "shown (Show m # fx) = m # shown fx"
| "shown (Call r # fx) = shown fx"

section \<open>The cached functions\<close>

definition cache_data ::
  "('k \<rightharpoonup> message list \<times> 'v) \<Rightarrow> 'k \<Rightarrow> effect list \<times> (exn + 'v) \<Rightarrow>
   effect list \<times> (exn + 'v) \<times> ('k \<rightharpoonup> message list \<times> 'v)" where
  \<comment> \<open>\<open>@st.cache_data\<close>: the key is made of the arguments whose parameter name does not
      start with an underscore. A hit returns the stored value and replays the stored
      elements without running the body; a miss runs the body and stores its value and
      elements when it returns, and stores nothing when it raises.\<close>
  "cache_data c k body =
     (case c k of
        Some (ms, v) \<Rightarrow> (map Show ms, Inr v, c)
      | None \<Rightarrow>
          (case snd body of
             Inl e \<Rightarrow> (fst body, Inl e, c)
           | Inr v \<Rightarrow> (fst body, Inr v, c(k \<mapsto> (shown (fst body), v)))))"

definition generate_world_bible_body ::
  "env \<Rightarrow> string \<Rightarrow> string \<Rightarrow> string \<Rightarrow> effect list \<times> (exn + string)" where
  \<comment> \<open>lines 54 to 63\<close>
  "generate_world_bible_body w theme archetype contradiction =
     ([Call (WorldBiblePrompt theme archetype contradiction)],
      (case generate_content w of
         Inl e \<Rightarrow> Inl e
       | Inr response_text \<Rightarrow> response_text))"

definition generate_story_chapter_body ::
  "env \<Rightarrow> string \<Rightarrow> string option \<Rightarrow> pyval \<Rightarrow> effect list \<times> (exn + pyval)" where
  \<comment> \<open>lines 68 to 90. When \<open>generate_content\<close> raises, \<open>response\<close> is not bound and line
      89 raises \<open>UnboundLocalError\<close> inside the handler; when \<open>response.text\<close> raises,
      line 89 raises it again.\<close>
  "generate_story_chapter_body w story_context bible user_choice =
     (case generate_content w of
        Inl e \<Rightarrow>
          ([Call (ChapterPrompt user_choice story_context bible),
            Show (ErrorProcessingAIResponse e)],
           Inl (UnboundLocalError ''response''))
      | Inr (Inl e) \<Rightarrow>
          ([Call (ChapterPrompt user_choice story_context bible),
            Show (ErrorProcessingAIResponse e)],
           Inl e)
      | Inr (Inr response_text) \<Rightarrow>
          (case loads w (clean_reply response_text) of
             Inl e \<Rightarrow>
               ([Call (ChapterPrompt user_choice story_context bible),
                 Show (ErrorProcessingAIResponse e), Show (ShowCode response_text)],
                Inr PNone)
           | Inr data \<Rightarrow>
               ([Call (ChapterPrompt user_choice story_context bible)], Inr data)))"

definition image_b64 :: "pyval \<Rightarrow> exn + pyval" where
  \<comment> \<open>line 121: \<open>data["artifacts"][0]["base64"]\<close>\<close>
  "image_b64 data =
     (case subscript data ''artifacts'' of
        Inl e \<Rightarrow> Inl e
      | Inr artifacts \<Rightarrow>
          (case subscript0 artifacts of
             Inl e \<Rightarrow> Inl e
           | Inr artifact \<Rightarrow> subscript artifact ''base64''))"

definition generate_image_stability_body ::
  "api_keys \<Rightarrow> env \<Rightarrow> pyval \<Rightarrow> effect list \<times> (exn + image option)" where
  \<comment> \<open>lines 95 to 129. \<open>raise_for_status\<close> raises \<open>HTTPError\<close> for the status codes 400 to
      599; its handler calls \<open>e.response.json()\<close> on line 125, outside any \<open>try\<close>.\<close>
  "generate_image_stability_body k w prompt =
     (if \<not> key_set (stability_api_key k) then ([Show StabilityKeyNotFound], Inr None)
      else
        (case post w of
           PostFails e \<Rightarrow> ([Call (ImagePrompt prompt), Show (StabilityError e)], Inr None)
         | PostResponse status body \<Rightarrow>
             if 400 \<le> status \<and> status < 600 then
               (case body of
                  Inl e \<Rightarrow>
                    ([Call (ImagePrompt prompt), Show (StabilityHttpError status)], Inl e)
                | Inr j \<Rightarrow>
                    ([Call (ImagePrompt prompt), Show (StabilityHttpError status),
                      Show (ShowJson j)],
                     Inr None))
             else
               (case body of
                  Inl e \<Rightarrow> ([Call (ImagePrompt prompt), Show (StabilityError e)], Inr None)
                | Inr data \<Rightarrow>
                    (case image_b64 data of
                       Inl e \<Rightarrow>
                         ([Call (ImagePrompt prompt), Show (StabilityError e)], Inr None)
                     | Inr b64 \<Rightarrow>
                         (case image_open w b64 of
                            Inl e \<Rightarrow>
                              ([Call (ImagePrompt prompt), Show (StabilityError e)], Inr None)
                          | Inr img \<Rightarrow> ([Call (ImagePrompt prompt)], Inr (Some img)))))))"

definition generate_and_play_audio :: "api_keys \<Rightarrow> env \<Rightarrow> pyval \<Rightarrow> effect list" where
  \<comment> \<open>lines 136 to 191: every exception is caught on line 190\<close>
  "generate_and_play_audio k w txt =
     (if \<not> key_set (elevenlabs_api_key k) then [Show NarrationKeyMissing]
      else
        (case text_to_speech w of
           Inl e \<Rightarrow> [Call (SpeechText txt), Show (AudioError e)]
         | Inr u \<Rightarrow>
             if music_file_exists w then [Call (SpeechText txt), Show AudioPlayer]
             else [Call (SpeechText txt), Show MusicFileNotFound, Show AudioPlayer]))"

record caches =
  world_bible_cache :: "string \<times> string \<times> string \<rightharpoonup> message list \<times> string"
  story_chapter_cache :: "pyval \<rightharpoonup> message list \<times> pyval"
  image_cache :: "pyval \<rightharpoonup> message list \<times> image option"

definition generate_world_bible ::
  "env \<Rightarrow> (string \<times> string \<times> string \<rightharpoonup> message list \<times> string) \<Rightarrow> string \<Rightarrow> string \<Rightarrow>
   string \<Rightarrow>
   effect list \<times> (exn + string) \<times> (string \<times> string \<times> string \<rightharpoonup> message list \<times> string)" where
  \<comment> \<open>lines 51 and 52: the key is \<open>(theme, archetype, contradiction)\<close>\<close>
  "generate_world_bible w c theme archetype contradiction =
     cache_data c (theme, archetype, contradiction)
       (generate_world_bible_body w theme archetype contradiction)"

definition generate_story_chapter ::
  "env \<Rightarrow> (pyval \<rightharpoonup> message list \<times> pyval) \<Rightarrow> string \<Rightarrow> string option \<Rightarrow> pyval \<Rightarrow>
   effect list \<times> (exn + pyval) \<times> (pyval \<rightharpoonup> message list \<times> pyval)" where
  \<comment> \<open>lines 65 and 66: \<open>_story_context\<close> and \<open>_world_bible\<close> start with an underscore, so
      the key is \<open>user_choice\<close> alone\<close>
  "generate_story_chapter w c story_context bible user_choice =
     cache_data c user_choice (generate_story_chapter_body w story_context bible user_choice)"

definition generate_image_stability ::
  "api_keys \<Rightarrow> env \<Rightarrow> (pyval \<rightharpoonup> message list \<times> image option) \<Rightarrow> pyval \<Rightarrow>
   effect list \<times> (exn + image option) \<times> (pyval \<rightharpoonup> message list \<times> image option)" where
  \<comment> \<open>lines 92 and 93: the key is \<open>prompt\<close>\<close>
  "generate_image_stability k w c prompt =
     cache_data c prompt (generate_image_stability_body k w prompt)"

section \<open>One run of the script\<close>

datatype outcome = Completed | Stopped | Rerun | Crashed exn

text \<open>
  How a run of the script ends: it reaches the last line, \<open>st.stop()\<close> halts it,
  \<open>st.rerun()\<close> halts it and asks for a new run, or an exception that nothing catches
  ends it.
\<close>

datatype click =
    NoClick
  | SetTheStage string string string
  | StartTheSaga string
  | NarrateFullSaga
  | WeaveNextChapter pyval
  | Restart

text \<open>
  The one button that reads \<open>True\<close> in a run, with the values of the widgets of its
  form: the three inputs of the world form, the text area \<open>initial_prompt\<close>, the option
  that \<open>st.radio\<close> returns as \<open>choice_made\<close>. A button reads \<open>True\<close> only where the run
  evaluates it.
\<close>

type_synonym page = "effect list \<times> outcome option \<times> session \<times> caches"
  \<comment> \<open>the elements and calls of a part of the script, \<open>Some\<close> way the run ended there or
      \<open>None\<close> when it goes on, the session state and the caches it leaves\<close>

definition world_forge_page :: "env \<Rightarrow> caches \<Rightarrow> session \<Rightarrow> click \<Rightarrow> page" where
  \<comment> \<open>lines 206 to 214\<close>
  "world_forge_page w cs s c =
     (case c of
        SetTheStage theme archetype contradiction \<Rightarrow>
          (case generate_world_bible w (world_bible_cache cs) theme archetype contradiction of
             (fx, Inl e, wc) \<Rightarrow> (fx, Some (Crashed e), s, cs)
           | (fx, Inr bible, wc) \<Rightarrow>
               (fx, Some Rerun, s\<lparr>world_bible := Some bible, app_stage := story_start\<rparr>,
                cs\<lparr>world_bible_cache := wc\<rparr>))
      | _ \<Rightarrow> ([], None, s, cs))"

definition start_story_commit ::
  "api_keys \<Rightarrow> env \<Rightarrow> caches \<Rightarrow> session \<Rightarrow> string \<Rightarrow> pyval \<Rightarrow> page" where
  \<comment> \<open>lines 225 to 232, the body of \<open>if ai_response:\<close>\<close>
  "start_story_commit k w cs s initial_prompt ai_response =
     (case subscript ai_response ''image_prompt'' of
        Inl e \<Rightarrow> ([], Some (Crashed e), s, cs)
      | Inr image_prompt \<Rightarrow>
          (case generate_image_stability k w (image_cache cs) image_prompt of
             (fx, Inl e, ic) \<Rightarrow> (fx, Some (Crashed e), s, cs)
           | (fx, Inr initial_image, ic) \<Rightarrow>
               (let s1 = s\<lparr>story_chapters := story_chapters s @
                            [\<lparr>ch_text = PStr initial_prompt, ch_image = None\<rparr>]\<rparr>
                in case subscript ai_response ''narrative_chapter'' of
                     Inl e \<Rightarrow> (fx, Some (Crashed e), s1, cs\<lparr>image_cache := ic\<rparr>)
                   | Inr narrative \<Rightarrow>
                       (let s2 = s1\<lparr>story_chapters := story_chapters s1 @
                                    [\<lparr>ch_text = narrative, ch_image = initial_image\<rparr>]\<rparr>
                        in case subscript ai_response ''next_choices'' of
                             Inl e \<Rightarrow> (fx, Some (Crashed e), s2, cs\<lparr>image_cache := ic\<rparr>)
                           | Inr choices \<Rightarrow>
                               (fx, Some Rerun,
                                s2\<lparr>latest_choices := choices, app_stage := story_cycle\<rparr>,
                                cs\<lparr>image_cache := ic\<rparr>)))))"

definition story_start_page :: "api_keys \<Rightarrow> env \<Rightarrow> caches \<Rightarrow> session \<Rightarrow> click \<Rightarrow> page" where
  \<comment> \<open>lines 219 to 232\<close>
  "story_start_page k w cs s c =
     (case c of
        StartTheSaga initial_prompt \<Rightarrow>
          if initial_prompt = [] then ([], None, s, cs)
          else
            (case generate_story_chapter w (story_chapter_cache cs) initial_prompt
                    (world_bible s) (PStr initial_prompt) of
               (fx, Inl e, sc) \<Rightarrow> (fx, Some (Crashed e), s, cs)
             | (fx, Inr ai_response, sc) \<Rightarrow>
                 if truthy ai_response then
                   (case start_story_commit k w (cs\<lparr>story_chapter_cache := sc\<rparr>) s
                           initial_prompt ai_response of
                      (fx', r) \<Rightarrow> (fx @ fx', r))
                 else (fx, None, s, cs\<lparr>story_chapter_cache := sc\<rparr>))
      | _ \<Rightarrow> ([], None, s, cs))"

definition narrate_full_saga :: "api_keys \<Rightarrow> env \<Rightarrow> session \<Rightarrow> click \<Rightarrow> exn + effect list" where
  \<comment> \<open>lines 242 to 245: the join runs in every run that has a chapter\<close>
  "narrate_full_saga k w s c =
     (if story_chapters s = [] then Inr []
      else
        (case py_join '' '' (map ch_text (story_chapters s)) of
           Inl e \<Rightarrow> Inl e
         | Inr full_story_text \<Rightarrow>
             Inr (if c = NarrateFullSaga then generate_and_play_audio k w (PStr full_story_text)
                  else [])))"

definition choice_commit ::
  "api_keys \<Rightarrow> env \<Rightarrow> caches \<Rightarrow> session \<Rightarrow> pyval \<Rightarrow> page" where
  \<comment> \<open>lines 255 to 262, the body of \<open>if ai_response:\<close>\<close>
  "choice_commit k w cs s ai_response =
     (case subscript ai_response ''image_prompt'' of
        Inl e \<Rightarrow> ([], Some (Crashed e), s, cs)
      | Inr image_prompt \<Rightarrow>
          (case generate_image_stability k w (image_cache cs) image_prompt of
             (fx, Inl e, ic) \<Rightarrow> (fx, Some (Crashed e), s, cs)
           | (fx, Inr new_image, ic) \<Rightarrow>
               (case subscript ai_response ''narrative_chapter'' of
                  Inl e \<Rightarrow> (fx, Some (Crashed e), s, cs\<lparr>image_cache := ic\<rparr>)
                | Inr narrative \<Rightarrow>
                    (let s1 = s\<lparr>story_chapters := story_chapters s @
                                 [\<lparr>ch_text = narrative, ch_image = new_image\<rparr>]\<rparr>
                     in case subscript ai_response ''next_choices'' of
                          Inl e \<Rightarrow> (fx, Some (Crashed e), s1, cs\<lparr>image_cache := ic\<rparr>)
                        | Inr choices \<Rightarrow>
                            (fx @ generate_and_play_audio k w narrative, Some Rerun,
                             s1\<lparr>latest_choices := choices\<rparr>, cs\<lparr>image_cache := ic\<rparr>)))))"

definition choice_form :: "api_keys \<Rightarrow> env \<Rightarrow> caches \<Rightarrow> session \<Rightarrow> pyval \<Rightarrow> page" where
  \<comment> \<open>lines 252 to 262, the body of \<open>if st.form_submit_button("Weave Next Chapter"):\<close>\<close>
  "choice_form k w cs s choice_made =
     (case py_join '' '' (map ch_text (story_chapters s)) of
        Inl e \<Rightarrow> ([], Some (Crashed e), s, cs)
      | Inr story_so_far \<Rightarrow>
          (case generate_story_chapter w (story_chapter_cache cs) story_so_far
                  (world_bible s) choice_made of
             (fx, Inl e, sc) \<Rightarrow> (fx, Some (Crashed e), s, cs)
           | (fx, Inr ai_response, sc) \<Rightarrow>
               if truthy ai_response then
                 (case choice_commit k w (cs\<lparr>story_chapter_cache := sc\<rparr>) s ai_response of
                    (fx', r) \<Rightarrow> (fx @ fx', r))
               else (fx, None, s, cs\<lparr>story_chapter_cache := sc\<rparr>)))"

definition story_cycle_page :: "api_keys \<Rightarrow> env \<Rightarrow> caches \<Rightarrow> session \<Rightarrow> click \<Rightarrow> page" where
  \<comment> \<open>lines 235 to 262\<close>
  "story_cycle_page k w cs s c =
     (case narrate_full_saga k w s c of
        Inl e \<Rightarrow> ([], Some (Crashed e), s, cs)
      | Inr fx \<Rightarrow>
          if truthy (latest_choices s) then
            (case c of
               WeaveNextChapter choice_made \<Rightarrow>
                 (case choice_form k w cs s choice_made of (fx', r) \<Rightarrow> (fx @ fx', r))
             | _ \<Rightarrow> (fx, None, s, cs))
          else (fx, None, s, cs))"

definition stage_page :: "api_keys \<Rightarrow> env \<Rightarrow> caches \<Rightarrow> session \<Rightarrow> click \<Rightarrow> page" where
  \<comment> \<open>lines 205, 216 and 234\<close>
  "stage_page k w cs s c =
     (case app_stage s of
        world_forge \<Rightarrow> world_forge_page w cs s c
      | story_start \<Rightarrow> story_start_page k w cs s c
      | story_cycle \<Rightarrow> story_cycle_page k w cs s c)"

record run =
  effects :: "effect list"
  ending :: outcome
  state :: "session option"
  cache :: caches

definition script :: "api_keys \<Rightarrow> env \<Rightarrow> caches \<Rightarrow> session option \<Rightarrow> click \<Rightarrow> run" where
  \<comment> \<open>the whole script, lines 40 to 278: the key check, the initialisation of the
      session state, the page of the stage, the restart button\<close>
  "script k w cs st c =
     (if \<not> key_set (google_api_key k) then
        \<lparr>effects = [Show GoogleKeyNotFound], ending = Stopped, state = st, cache = cs\<rparr>
      else
        (let warn = (if key_set (elevenlabs_api_key k) then [] else [Show ElevenLabsKeyNotFound]);
             s = (case st of None \<Rightarrow> initial_session | Some s \<Rightarrow> s)
         in case stage_page k w cs s c of
              (fx, Some r, s', cs') \<Rightarrow>
                \<lparr>effects = warn @ fx, ending = r, state = Some s', cache = cs'\<rparr>
            | (fx, None, s', cs') \<Rightarrow>
                if c = Restart then
                  \<lparr>effects = warn @ fx, ending = Rerun, state = None, cache = cs'\<rparr>
                else
                  \<lparr>effects = warn @ fx, ending = Completed, state = Some s', cache = cs'\<rparr>))"

section \<open>Notions the properties are stated with\<close>

definition wrap_reply ::
  "bool \<Rightarrow> string \<Rightarrow> string \<Rightarrow> string \<Rightarrow> string \<Rightarrow> string \<Rightarrow> string" where
  \<comment> \<open>a reply \<open>r\<close> wrapped in white space and, when \<open>fenced\<close>, in the markers of a fenced
      block\<close>
  "wrap_reply fenced ws1 ws2 ws3 ws4 r =
     (if fenced then ws1 @ ''```json'' @ ws2 @ r @ ws3 @ ''```'' @ ws4
      else ws1 @ ws2 @ r @ ws3 @ ws4)"

definition unfence :: "string \<Rightarrow> string" where
  \<comment> \<open>line 84 without its first \<open>strip()\<close>\<close>
  "unfence s = str_strip (replace_from ''```'' [] (replace_from ''```json'' [] s))"

definition generation_fails :: "env \<Rightarrow> bool" where
  \<comment> \<open>the try block of lines 83 to 85 raises: in \<open>generate_content\<close>, in \<open>response.text\<close>
      or in \<open>json.loads\<close>\<close>
  "generation_fails w =
     (case generate_content w of
        Inl e \<Rightarrow> True
      | Inr (Inl e) \<Rightarrow> True
      | Inr (Inr response_text) \<Rightarrow>
          (case loads w (clean_reply response_text) of Inl e \<Rightarrow> True | Inr data \<Rightarrow> False))"

fun turn_choice :: "click \<Rightarrow> pyval option" where
  \<comment> \<open>the \<open>user_choice\<close> of the turn a click submits: line 223 passes
      \<open>initial_prompt\<close>, line 253 \<open>choice_made\<close>\<close>
  "turn_choice (StartTheSaga initial_prompt) = Some (PStr initial_prompt)"
| "turn_choice (WeaveNextChapter choice_made) = Some choice_made"
| "turn_choice c = None"

fun chapter_prompts :: "effect list \<Rightarrow> request list" where
  \<comment> \<open>the calls of \<open>model.generate_content\<close> that \<open>generate_story_chapter\<close> makes\<close>
  "chapter_prompts [] = []"
| "chapter_prompts (Call (ChapterPrompt user_choice story_context bible) # fx) =
     ChapterPrompt user_choice story_context bible # chapter_prompts fx"
| "chapter_prompts (e # fx) = chapter_prompts fx"

definition reply_choices :: "caches \<Rightarrow> pyval \<Rightarrow> pyval option" where
  \<comment> \<open>the \<open>next_choices\<close> of the reply that \<open>generate_story_chapter\<close> returned for
      \<open>user_choice\<close>, read from its cache\<close>
  "reply_choices cs user_choice =
     (case story_chapter_cache cs user_choice of
        None \<Rightarrow> None
      | Some (ms, ai_response) \<Rightarrow>
          (case subscript ai_response ''next_choices'' of
             Inl e \<Rightarrow> None
           | Inr choices \<Rightarrow> Some choices))"

definition last_choices :: "pyval option \<Rightarrow> click \<Rightarrow> run \<Rightarrow> pyval option" where
  \<comment> \<open>the \<open>next_choices\<close> of the most recent successful turn of the saga, after a run
      \<open>r\<close> on click \<open>c\<close>, when it was \<open>g\<close> before (\<open>None\<close>: the saga has had no successful
      turn). A turn is successful when its run ends in the \<open>st.rerun()\<close> of line 232 or
      262; the restart button starts a new saga.\<close>
  "last_choices g c r =
     (if ending r = Rerun then
        (case c of
           Restart \<Rightarrow> None
         | StartTheSaga initial_prompt \<Rightarrow> reply_choices (cache r) (PStr initial_prompt)
         | WeaveNextChapter choice_made \<Rightarrow> reply_choices (cache r) choice_made
         | _ \<Rightarrow> g)
      else g)"

inductive reachable :: "api_keys \<Rightarrow> session option \<Rightarrow> caches \<Rightarrow> pyval option \<Rightarrow> bool"
  for k :: api_keys where
    fresh: "reachable k None cs None"
  | run: "reachable k st cs g \<Longrightarrow>
          reachable k (state (script k w cs st c)) (cache (script k w cs st c))
            (last_choices g c (script k w cs st c))"

definition choices_agree :: "session \<Rightarrow> pyval option \<Rightarrow> bool" where
  \<comment> \<open>\<open>latest_choices\<close> against the \<open>next_choices\<close> \<open>g\<close> of the most recent successful turn\<close>
  "choices_agree s g =
     (if app_stage s = story_cycle then g = Some (latest_choices s)
      else g = None \<and> latest_choices s = PList [])"

text \<open>
  \<open>reachable k st cs g\<close>: some sequence of runs of the script, from a session without
  keys and any content of the caches, with any clicks and any behaviour of the services,
  leads to the session state \<open>st\<close> and the caches \<open>cs\<close>, and \<open>g\<close> is the \<open>next_choices\<close> of
  the most recent successful turn.
\<close>

section \<open>Concrete sessions and services\<close>

definition service_env ::
  "exn + (exn + string) \<Rightarrow> (string \<times> pyval) list \<Rightarrow> http_outcome \<Rightarrow> env" where
  \<comment> \<open>services that answer \<open>generate_content\<close> with \<open>reply\<close> and \<open>requests.post\<close> with
      \<open>answer\<close>, and a \<open>json.loads\<close> that decodes the texts listed in \<open>decoded\<close> and raises
      on every other text\<close>
  "service_env reply decoded answer =
     \<lparr>loads = (\<lambda>t. case map_of decoded t of
                      None \<Rightarrow> Inl (LibraryError ''JSONDecodeError'')
                    | Some v \<Rightarrow> Inr v),
      generate_content = reply,
      post = answer,
      image_open = (\<lambda>b64. Inr 0),
      text_to_speech = Inr (),
      music_file_exists = False\<rparr>"

definition text_only_keys :: api_keys where
  "text_only_keys =
     \<lparr>google_api_key = Some ''g-key'', stability_api_key = None, elevenlabs_api_key = None\<rparr>"

definition all_keys :: api_keys where
  "all_keys =
     \<lparr>google_api_key = Some ''g-key'', stability_api_key = Some ''s-key'',
      elevenlabs_api_key = Some ''e-key''\<rparr>"

definition empty_caches :: caches where
  "empty_caches =
     \<lparr>world_bible_cache = Map.empty, story_chapter_cache = Map.empty,
      image_cache = Map.empty\<rparr>"

definition saga_session :: session where
  \<comment> \<open>a saga after its first turn\<close>
  "saga_session =
     \<lparr>app_stage = story_cycle, world_bible = Some ''Bored mages.'',
      story_chapters =
        [\<lparr>ch_text = PStr ''The captain woke.'', ch_image = None\<rparr>,
         \<lparr>ch_text = PStr ''A clock ticked.'', ch_image = None\<rparr>],
      latest_choices = PList [PStr ''Open the door.'', PStr ''Wait.'', PStr ''Sing.'']\<rparr>"

definition forged_session :: session where
  \<comment> \<open>a saga whose world has been forged\<close>
  "forged_session =
     \<lparr>app_stage = story_start, world_bible = Some ''Bored mages.'', story_chapters = [],
      latest_choices = PList []\<rparr>"

definition service_down :: env where
  \<comment> \<open>\<open>generate_content\<close> raises\<close>
  "service_down =
     service_env (Inl (LibraryError ''503 Service Unavailable'')) []
       (PostFails (LibraryError ''ConnectionError''))"

definition full_reply :: string where
  \<open>full_reply =
     ''{"narrative_chapter": "Dawn.", "next_choices": ["Go.", "Stay.", "Sing."], "image_prompt": "dawn"}''\<close>

definition full_turn :: pyval where
  "full_turn =
     PDict [(''narrative_chapter'', PStr ''Dawn.''),
            (''next_choices'', PList [PStr ''Go.'', PStr ''Stay.'', PStr ''Sing.'']),
            (''image_prompt'', PStr ''dawn'')]"

definition reply_without_image_prompt :: string where
  \<open>reply_without_image_prompt =
     ''{"narrative_chapter": "Dawn.", "next_choices": ["Go.", "Stay.", "Sing."]}''\<close>

definition turn_without_image_prompt :: pyval where
  "turn_without_image_prompt =
     PDict [(''narrative_chapter'', PStr ''Dawn.''),
            (''next_choices'', PList [PStr ''Go.'', PStr ''Stay.'', PStr ''Sing.''])]"

definition reply_without_choices :: string where
  \<open>reply_without_choices = ''{"narrative_chapter": "Dawn.", "image_prompt": "dawn"}''\<close>

definition turn_without_choices :: pyval where
  "turn_without_choices =
     PDict [(''narrative_chapter'', PStr ''Dawn.''), (''image_prompt'', PStr ''dawn'')]"

definition reply_no_choices :: string where
  \<open>reply_no_choices =
     ''{"narrative_chapter": "Dawn.", "next_choices": [], "image_prompt": "dawn"}''\<close>

definition turn_no_choices :: pyval where
  "turn_no_choices =
     PDict [(''narrative_chapter'', PStr ''Dawn.''), (''next_choices'', PList []),
            (''image_prompt'', PStr ''dawn'')]"

definition no_text_key :: api_keys where
  "no_text_key =
     \<lparr>google_api_key = None, stability_api_key = Some ''s-key'',
      elevenlabs_api_key = Some ''e-key''\<rparr>"

definition no_picture :: http_outcome where
  \<comment> \<open>\<open>requests.post\<close> cannot connect\<close>
  "no_picture = PostFails (LibraryError ''ConnectionError'')"

definition full_service :: env where
  \<comment> \<open>the model replies with \<open>full_reply\<close>\<close>
  "full_service = service_env (Inr (Inr full_reply)) [(full_reply, full_turn)] no_picture"

definition service_without_image_prompt :: env where
  "service_without_image_prompt =
     service_env (Inr (Inr reply_without_image_prompt))
       [(reply_without_image_prompt, turn_without_image_prompt)] no_picture"

definition service_without_choices :: env where
  "service_without_choices =
     service_env (Inr (Inr reply_without_choices))
       [(reply_without_choices, turn_without_choices)] no_picture"

definition service_no_choices :: env where
  "service_no_choices =
     service_env (Inr (Inr reply_no_choices)) [(reply_no_choices, turn_no_choices)] no_picture"

definition bible_service :: env where
  \<comment> \<open>the model replies with the text of a world bible\<close>
  "bible_service = service_env (Inr (Inr ''Bored mages.'')) [] no_picture"

definition gateway_error :: env where
  \<comment> \<open>the model replies with \<open>full_reply\<close>; the image service answers 502 with a body
      that is not JSON\<close>
  "gateway_error =
     service_env (Inr (Inr full_reply)) [(full_reply, full_turn)]
       (PostResponse 502 (Inl (LibraryError ''JSONDecodeError'')))"

definition quota_error :: env where
  \<comment> \<open>the model replies with \<open>full_reply\<close>; the image service answers 429 with a JSON
      body\<close>
  "quota_error =
     service_env (Inr (Inr full_reply)) [(full_reply, full_turn)]
       (PostResponse 429 (Inr (PDict [(''message'', PStr ''quota'')])))"

definition forged_caches :: caches where
  "forged_caches =
     \<lparr>world_bible_cache =
        [(''Revenge'', ''The Outcast'', ''Boredom'') \<mapsto> ([], ''Bored mages.'')],
      story_chapter_cache = Map.empty, image_cache = Map.empty\<rparr>"

definition stalled_session :: session where
  \<comment> \<open>a saga whose first turn returned an empty list of choices\<close>
  "stalled_session =
     \<lparr>app_stage = story_cycle, world_bible = Some ''Bored mages.'',
      story_chapters =
        [\<lparr>ch_text = PStr ''The captain woke.'', ch_image = None\<rparr>,
         \<lparr>ch_text = PStr ''Dawn.'', ch_image = None\<rparr>],
      latest_choices = PList []\<rparr>"

definition stalled_caches :: caches where
  "stalled_caches =
     \<lparr>world_bible_cache =
        [(''Revenge'', ''The Outcast'', ''Boredom'') \<mapsto> ([], ''Bored mages.'')],
      story_chapter_cache = [PStr ''The captain woke.'' \<mapsto> ([], turn_no_choices)],
      image_cache = [PStr ''dawn'' \<mapsto> ([StabilityKeyNotFound], None)]\<rparr>"

definition opened_session :: session where
  \<comment> \<open>a saga whose first turn returned \<open>full_turn\<close>\<close>
  "opened_session =
     \<lparr>app_stage = story_cycle, world_bible = Some ''Bored mages.'',
      story_chapters =
        [\<lparr>ch_text = PStr ''The captain woke.'', ch_image = None\<rparr>,
         \<lparr>ch_text = PStr ''Dawn.'', ch_image = None\<rparr>],
      latest_choices = PList [PStr ''Go.'', PStr ''Stay.'', PStr ''Sing.'']\<rparr>"

definition opened_caches :: caches where
  "opened_caches =
     \<lparr>world_bible_cache =
        [(''Revenge'', ''The Outcast'', ''Boredom'') \<mapsto> ([], ''Bored mages.'')],
      story_chapter_cache = [PStr ''The captain woke.'' \<mapsto> ([], full_turn)],
      image_cache = [PStr ''dawn'' \<mapsto> ([StabilityKeyNotFound], None)]\<rparr>"

section \<open>Evaluating concrete runs\<close>

lemmas page_defs =
  script_def Let_def stage_page_def world_forge_page_def story_start_page_def
  start_story_commit_def story_cycle_page_def narrate_full_saga_def choice_form_def
  choice_commit_def generate_world_bible_def generate_world_bible_body_def
  generate_story_chapter_def generate_story_chapter_body_def generate_image_stability_def
  generate_image_stability_body_def generate_and_play_audio_def cache_data_def py_join_def
  image_b64_def

lemmas service_defs =
  service_env_def service_down_def full_service_def service_without_image_prompt_def
  service_without_choices_def service_no_choices_def bible_service_def gateway_error_def
  quota_error_def no_picture_def

lemmas session_defs =
  text_only_keys_def all_keys_def no_text_key_def empty_caches_def saga_session_def
  forged_session_def forged_caches_def stalled_session_def stalled_caches_def
  opened_session_def opened_caches_def initial_session_def

lemmas clean_defs = clean_reply_def str_replace_def str_strip_def py_isspace_def

lemma clean_full_reply: "clean_reply full_reply = full_reply"
  by (simp add: clean_defs full_reply_def)

lemma clean_reply_without_image_prompt:
  "clean_reply reply_without_image_prompt = reply_without_image_prompt"
  by (simp add: clean_defs reply_without_image_prompt_def)

lemma clean_reply_without_choices: "clean_reply reply_without_choices = reply_without_choices"
  by (simp add: clean_defs reply_without_choices_def)

lemma clean_reply_no_choices: "clean_reply reply_no_choices = reply_no_choices"
  by (simp add: clean_defs reply_no_choices_def)

lemmas clean_replies =
  clean_full_reply clean_reply_without_image_prompt clean_reply_without_choices
  clean_reply_no_choices

section \<open>Stripping and replacing\<close>

lemma replace_from_ws_prefix:
  "set w \<inter> set old = {} \<Longrightarrow> replace_from old new (w @ s) = w @ replace_from old new s"
proof (induction w)
  case Nil then show ?case by simp
next
  case (Cons c w)
  have "take (length old) (c # w @ s) \<noteq> old \<or> old = []"
  proof (cases old)
    case Nil then show ?thesis by simp
  next
    case (Cons a as)
    with Cons.prems show ?thesis by auto
  qed
  with Cons show ?case by auto
qed

lemma take_app_last:
  "old \<noteq> [] \<Longrightarrow> take (length old) (r @ t) = old \<Longrightarrow> length r < length old \<Longrightarrow> last old \<in> set t"
proof -
  assume a: "old \<noteq> []" "take (length old) (r @ t) = old" "length r < length old"
  then have "old = r @ take (length old - length r) t" by simp
  moreover from a have "take (length old - length r) t \<noteq> []"
    by (metis append_Nil2 calculation less_irrefl)
  ultimately have "last old = last (take (length old - length r) t)"
    by (metis last_appendR)
  then show ?thesis
    by (metis \<open>take (length old - length r) t \<noteq> []\<close> in_set_takeD last_in_set)
qed

lemma take_Cons_app: "n \<le> Suc (length cs) \<Longrightarrow> take n (c # cs @ t) = take n (c # cs)"
  by (cases n) auto

lemma drop_Cons_app: "n \<le> Suc (length cs) \<Longrightarrow> drop n (c # cs @ t) = drop n (c # cs) @ t"
  by (cases n) auto

lemma replace_from_no_last:
  "last old \<notin> set t \<Longrightarrow> replace_from old new (r @ t) = replace_from old new r @ t"
proof (induction old new r rule: replace_from.induct)
  case (1 old new)
  then show ?case
  proof (induction t)
    case Nil then show ?case by simp
  next
    case (Cons a t)
    then have "old = [] \<or> take (length old) (a # t) \<noteq> old"
      using take_app_last[of old "[]" "a # t"] by (cases old) auto
    with Cons show ?case by auto
  qed
next
  case (2 old new c cs)
  show ?case
  proof (cases "old \<noteq> [] \<and> take (length old) (c # cs) = old")
    case True
    then have "length (take (length old) (c # cs)) = length old" by simp
    then have l: "length old \<le> length (c # cs)"
      unfolding length_take by linarith
    have t1: "take (length old) (c # cs @ t) = old"
      using l True by (simp only: take_Cons_app length_Cons)
    have d1: "drop (length old) (c # cs @ t) = drop (length old) (c # cs) @ t"
      using l by (simp only: drop_Cons_app length_Cons)
    from True 2(1)[OF True 2(3)] t1 d1 show ?thesis by simp
  next
    case False
    have "old = [] \<or> take (length old) ((c # cs) @ t) \<noteq> old"
    proof (cases "length (c # cs) < length old")
      case True
      then show ?thesis using take_app_last[of old "c # cs" t] 2(3) by auto
    next
      case ge: False
      then have "take (length old) (c # cs @ t) = take (length old) (c # cs)"
        by (simp only: take_Cons_app length_Cons not_less)
      then show ?thesis using False by auto
    qed
    with False 2 show ?thesis by auto
  qed
qed


lemma replace_fence_suffix_gen:
  "old = ''```'' \<Longrightarrow> new = [] \<Longrightarrow>
   replace_from old new (s @ old) = replace_from old new s"
proof (induction old new s rule: replace_from.induct)
  case (1 old new)
  then show ?case by simp
next
  case (2 old new c cs)
  show ?case
  proof (cases "old \<noteq> [] \<and> take (length old) (c # cs) = old")
    case True
    then have "length (take (length old) (c # cs)) = length old" by simp
    then have l: "length old \<le> Suc (length cs)"
      unfolding length_take by simp
    have t1: "take (length old) (c # cs @ old) = old"
      using l True by (simp only: take_Cons_app)
    have d1: "drop (length old) (c # cs @ old) = drop (length old) (c # cs) @ old"
      using l by (simp only: drop_Cons_app)
    from True 2(1)[OF True 2(3) 2(4)] t1 d1 show ?thesis by simp
  next
    case False
    show ?thesis
    proof (cases "length (c # cs) < length old")
      case True
      then have "cs = [] \<or> (\<exists>d. cs = [d])"
        using 2(3) by (cases cs; cases "tl cs") auto
      then show ?thesis
      proof
        assume "cs = []"
        then show ?thesis using 2(3) 2(4) by (cases "c = CHR 0x60") simp_all
      next
        assume "\<exists>d. cs = [d]"
        then obtain d where "cs = [d]" ..
        then show ?thesis using 2(3) 2(4)
          by (cases "c = CHR 0x60"; cases "d = CHR 0x60") simp_all
      qed
    next
      case ge: False
      then have "take (length old) (c # cs @ old) = take (length old) (c # cs)"
        by (simp only: take_Cons_app length_Cons not_less)
      with False 2 show ?thesis by auto
    qed
  qed
qed

lemma replace_fence_suffix:
  "replace_from ''```'' [] (s @ ''```'') = replace_from ''```'' [] s"
  by (rule replace_fence_suffix_gen) simp_all

lemma str_strip_prefix: "list_all py_isspace w \<Longrightarrow> str_strip (w @ s) = str_strip s"
  by (simp add: str_strip_def list_all_iff dropWhile_append2)

lemma str_strip_suffix: "list_all py_isspace w \<Longrightarrow> str_strip (s @ w) = str_strip s"
proof (cases "list_all py_isspace s")
  case True
  assume w: "list_all py_isspace w"
  from True w have "dropWhile py_isspace (s @ w) = []" "dropWhile py_isspace s = []"
    by (auto simp: list_all_iff dropWhile_eq_Nil_conv)
  then show ?thesis
    unfolding str_strip_def by (simp only:)
next
  case False
  assume w: "list_all py_isspace w"
  from False have "dropWhile py_isspace (s @ w) = dropWhile py_isspace s @ w"
    by (metis dropWhile_append1 list_all_iff)
  moreover have "dropWhile py_isspace (rev w @ rev (dropWhile py_isspace s)) =
      dropWhile py_isspace (rev (dropWhile py_isspace s))"
    using w by (intro dropWhile_append2) (auto simp: list_all_iff)
  ultimately show ?thesis
    by (simp add: str_strip_def)
qed

lemma str_strip_decompose:
  "\<exists>a b. s = a @ str_strip s @ b \<and> list_all py_isspace a \<and> list_all py_isspace b"
proof -
  let ?P = py_isspace
  let ?d = "dropWhile ?P s"
  have 1: "s = takeWhile ?P s @ ?d" by simp
  have "rev ?d = takeWhile ?P (rev ?d) @ dropWhile ?P (rev ?d)" by simp
  then have "?d = rev (dropWhile ?P (rev ?d)) @ rev (takeWhile ?P (rev ?d))"
    by (metis rev_append rev_rev_ident)
  then have 2: "?d = str_strip s @ rev (takeWhile ?P (rev ?d))"
    by (simp add: str_strip_def)
  have 3: "list_all ?P (takeWhile ?P s)"
    by (simp add: list_all_iff) (meson set_takeWhileD)
  have 4: "list_all ?P (rev (takeWhile ?P (rev ?d)))"
    by (simp add: list_all_iff) (meson set_takeWhileD)
  from 1 2 3 4 show ?thesis by metis
qed

lemma space_not_fence:
  "list_all py_isspace w \<Longrightarrow> set w \<inter> set ''```json'' = {}"
  by (auto simp: list_all_iff py_isspace_def Let_def)

lemma space_not_fence':
  "list_all py_isspace w \<Longrightarrow> set w \<inter> set ''```'' = {}"
  by (auto simp: list_all_iff py_isspace_def Let_def)

lemma unfence_space_prefix: "list_all py_isspace w \<Longrightarrow> unfence (w @ s) = unfence s"
  by (simp only: unfence_def replace_from_ws_prefix[OF space_not_fence]
      replace_from_ws_prefix[OF space_not_fence'] str_strip_prefix)

lemma unfence_space_suffix:
  assumes "list_all py_isspace w" shows "unfence (s @ w) = unfence s"
proof -
  have 1: "last ''```json'' \<notin> set w" using space_not_fence[OF assms] by auto
  have 2: "last ''```'' \<notin> set w" using space_not_fence'[OF assms] by auto
  show ?thesis
    by (simp only: unfence_def replace_from_no_last[OF 1] replace_from_no_last[OF 2]
        str_strip_suffix[OF assms])
qed

lemma unfence_open: "unfence (''```json'' @ s) = unfence s"
  by (simp add: unfence_def)

lemma unfence_close: "unfence (s @ ''```'') = unfence s"
proof -
  have "replace_from ''```json'' [] (s @ ''```'') = replace_from ''```json'' [] s @ ''```''"
    by (rule replace_from_no_last) simp
  then show ?thesis
    by (simp only: unfence_def replace_fence_suffix)
qed

lemma clean_reply_unfence: "clean_reply t = unfence t"
proof -
  obtain a b where t: "t = a @ str_strip t @ b" and a: "list_all py_isspace a"
    and b: "list_all py_isspace b"
    using str_strip_decompose by blast
  have "unfence t = unfence (a @ (str_strip t @ b))" using t by simp
  also have "\<dots> = unfence (str_strip t)"
    by (simp only: unfence_space_prefix[OF a] unfence_space_suffix[OF b])
  finally show ?thesis
    by (simp add: clean_reply_def str_replace_def unfence_def)
qed

lemma clean_reply_wrap:
  assumes "list_all py_isspace ws1" "list_all py_isspace ws2"
    "list_all py_isspace ws3" "list_all py_isspace ws4"
  shows "clean_reply (wrap_reply fenced ws1 ws2 ws3 ws4 r) = clean_reply r"
proof (cases fenced)
  case True
  have "unfence (ws1 @ ''```json'' @ ws2 @ r @ ws3 @ ''```'' @ ws4)
      = unfence (((''```json'' @ ws2 @ r @ ws3) @ ''```'') @ ws4)"
    using unfence_space_prefix[OF assms(1)] by simp
  also have "\<dots> = unfence (''```json'' @ ws2 @ (r @ ws3))"
    by (simp only: unfence_space_suffix[OF assms(4)] unfence_close)
  also have "\<dots> = unfence r"
    by (simp only: unfence_open unfence_space_prefix[OF assms(2)] unfence_space_suffix[OF assms(3)])
  finally show ?thesis using True
    by (simp only: clean_reply_unfence wrap_reply_def if_True)
next
  case False
  have "unfence (ws1 @ ws2 @ r @ ws3 @ ws4) = unfence (((ws2 @ r) @ ws3) @ ws4)"
    using unfence_space_prefix[OF assms(1)] by simp
  also have "\<dots> = unfence r"
    by (simp only: unfence_space_prefix[OF assms(2)] unfence_space_suffix[OF assms(3)]
        unfence_space_suffix[OF assms(4)])
  finally show ?thesis using False
    by (simp only: clean_reply_unfence wrap_reply_def if_False)
qed

section \<open>The turn handlers\<close>

lemma generation_fails_result:
  assumes "generation_fails w" and "c uc = None"
    and "generate_story_chapter w c ctx wb uc = (fx, r, c')"
  shows "r = Inr PNone \<or> (\<exists>e. r = Inl e)"
  using assms
  by (auto simp: generation_fails_def generate_story_chapter_def cache_data_def
      generate_story_chapter_body_def split: sum.splits)

lemma story_start_page_fails:
  assumes "generation_fails w" and "turn_choice c = Some uc"
    and "story_chapter_cache cs uc = None"
  shows "fst (snd (snd (story_start_page k w cs s c))) = s"
proof (cases c)
  case (StartTheSaga p)
  obtain fx r c' where g: "generate_story_chapter w (story_chapter_cache cs) p (world_bible s) (PStr p) = (fx, r, c')"
    by (cases "generate_story_chapter w (story_chapter_cache cs) p (world_bible s) (PStr p)") auto
  from generation_fails_result[OF assms(1) _ g] assms(2,3) StartTheSaga
  have "r = Inr PNone \<or> (\<exists>e. r = Inl e)" by simp
  then show ?thesis using g StartTheSaga
    by (auto simp: story_start_page_def)
qed (simp_all add: story_start_page_def)

lemma story_cycle_page_fails:
  assumes "generation_fails w" and "turn_choice c = Some uc"
    and "story_chapter_cache cs uc = None"
  shows "fst (snd (snd (story_cycle_page k w cs s c))) = s"
proof (cases c)
  case (WeaveNextChapter ch)
  have cf: "fst (snd (snd (choice_form k w cs s ch))) = s"
  proof (cases "py_join '' '' (map ch_text (story_chapters s))")
    case (Inl e)
    then show ?thesis by (simp add: choice_form_def)
  next
    case (Inr ctx)
    obtain fx r c' where g: "generate_story_chapter w (story_chapter_cache cs) ctx (world_bible s) ch = (fx, r, c')"
      by (cases "generate_story_chapter w (story_chapter_cache cs) ctx (world_bible s) ch") auto
    from generation_fails_result[OF assms(1) _ g] assms(2,3) WeaveNextChapter
    have "r = Inr PNone \<or> (\<exists>e. r = Inl e)" by simp
    then show ?thesis using g Inr
      by (auto simp: choice_form_def)
  qed
  then show ?thesis using WeaveNextChapter
    by (auto simp: story_cycle_page_def split: sum.splits prod.splits)
qed (auto simp: story_cycle_page_def split: sum.splits)

lemma start_story_commit_not_stopped:
  "start_story_commit k w cs s p ai \<noteq> (fx, Some Stopped, s', cs')"
  by (auto simp: start_story_commit_def Let_def split: sum.splits prod.splits)

lemma choice_commit_not_stopped:
  "choice_commit k w cs s ai \<noteq> (fx, Some Stopped, s', cs')"
  by (auto simp: choice_commit_def Let_def split: sum.splits prod.splits)

lemma choice_form_not_stopped:
  "choice_form k w cs s ch \<noteq> (fx, Some Stopped, s', cs')"
  by (auto simp: choice_form_def choice_commit_not_stopped split: sum.splits prod.splits)

lemma stage_page_not_stopped:
  "fst (snd (stage_page k w cs s c)) \<noteq> Some Stopped"
proof (cases "app_stage s")
  case world_forge
  then show ?thesis
    by (auto simp: stage_page_def world_forge_page_def split: click.splits sum.splits prod.splits)
next
  case story_start
  then show ?thesis
    by (auto simp: stage_page_def story_start_page_def start_story_commit_not_stopped
        split: click.splits sum.splits prod.splits)
next
  case story_cycle
  then show ?thesis
    by (auto simp: stage_page_def story_cycle_page_def choice_form_not_stopped
        split: click.splits sum.splits prod.splits)
qed

lemma stage_page_restart:
  "stage_page k w cs s Restart = (fx, r, s', cs') \<Longrightarrow> r = None \<or> (\<exists>e. r = Some (Crashed e))"
  by (cases "app_stage s")
    (auto simp: stage_page_def world_forge_page_def story_start_page_def story_cycle_page_def
      split: sum.splits if_splits)

lemma chapter_prompts_append [simp]:
  "chapter_prompts (xs @ ys) = chapter_prompts xs @ chapter_prompts ys"
  by (induction xs rule: chapter_prompts.induct) auto

lemma chapter_prompts_Show [simp]: "chapter_prompts (map Show ms) = []"
  by (induction ms) auto

lemma chapter_prompts_audio [simp]: "chapter_prompts (generate_and_play_audio k w t) = []"
  by (auto simp: generate_and_play_audio_def split: sum.splits)

lemma chapter_prompts_image:
  "generate_image_stability k w c p = (fx, r, c') \<Longrightarrow> chapter_prompts fx = []"
  by (auto simp: generate_image_stability_def cache_data_def generate_image_stability_body_def
      split: option.splits sum.splits if_splits http_outcome.splits)

lemma chapter_prompts_start_commit:
  "start_story_commit k w cs s p ai = (fx, r) \<Longrightarrow> chapter_prompts fx = []"
  by (auto simp: start_story_commit_def Let_def dest: chapter_prompts_image
      split: sum.splits prod.splits)

lemma chapter_prompts_choice_commit:
  "choice_commit k w cs s ai = (fx, r) \<Longrightarrow> chapter_prompts fx = []"
  by (auto simp: choice_commit_def Let_def dest: chapter_prompts_image
      split: sum.splits prod.splits)

lemma chapter_prompts_generate:
  "generate_story_chapter w c ctx wb uc = (fx, r, c') \<Longrightarrow>
   chapter_prompts fx = (if c uc = None then [ChapterPrompt uc ctx wb] else [])"
  by (auto simp: generate_story_chapter_def cache_data_def generate_story_chapter_body_def
      split: option.splits sum.splits)

lemma str_items_PStr: "str_items (map PStr ts) = Inr ts"
  by (induction ts) auto

lemma py_join_PStr: "py_join sep (map PStr ts) = Inr (str_join sep ts)"
  by (simp add: py_join_def str_items_PStr)

lemma chapter_prompts_choice_form:
  assumes "map ch_text (story_chapters s) = map PStr ts"
  shows "chapter_prompts (fst (choice_form k w cs s uc)) =
     (if story_chapter_cache cs uc = None
      then [ChapterPrompt uc (str_join '' '' ts) (world_bible s)] else [])"
proof -
  obtain fx r c' where g: "generate_story_chapter w (story_chapter_cache cs) (str_join '' '' ts)
      (world_bible s) uc = (fx, r, c')"
    by (cases "generate_story_chapter w (story_chapter_cache cs) (str_join '' '' ts)
      (world_bible s) uc") auto
  note p = chapter_prompts_generate[OF g]
  show ?thesis
    using g p assms
    by (auto simp: choice_form_def py_join_PStr dest: chapter_prompts_choice_commit
        split: sum.splits prod.splits)
qed

lemma chapter_prompts_story_start:
  assumes "p \<noteq> []"
  shows "chapter_prompts (fst (story_start_page k w cs s (StartTheSaga p))) =
     (if story_chapter_cache cs (PStr p) = None
      then [ChapterPrompt (PStr p) p (world_bible s)] else [])"
proof -
  obtain fx r c' where g: "generate_story_chapter w (story_chapter_cache cs) p
      (world_bible s) (PStr p) = (fx, r, c')"
    by (cases "generate_story_chapter w (story_chapter_cache cs) p
      (world_bible s) (PStr p)") auto
  note q = chapter_prompts_generate[OF g]
  show ?thesis
    using g q assms
    by (auto simp: story_start_page_def dest: chapter_prompts_start_commit
        split: sum.splits prod.splits)
qed

lemma effects_script:
  "key_set (google_api_key k) \<Longrightarrow>
   chapter_prompts (effects (script k w cs (Some s) c)) =
   chapter_prompts (fst (stage_page k w cs s c))"
  by (auto simp: script_def Let_def split: prod.splits option.splits)

lemma generate_story_chapter_stored:
  "generate_story_chapter w c ctx wb uc = (fx, Inr ai, c') \<Longrightarrow> \<exists>ms. c' uc = Some (ms, ai)"
  by (auto simp: generate_story_chapter_def cache_data_def split: option.splits sum.splits)

lemma start_story_commit_choices:
  "start_story_commit k w cs s p ai = (fx, r, s', cs') \<Longrightarrow>
   story_chapter_cache cs' = story_chapter_cache cs \<and>
   (if r = Some Rerun
    then app_stage s' = story_cycle \<and> subscript ai ''next_choices'' = Inr (latest_choices s')
    else app_stage s' = app_stage s \<and> latest_choices s' = latest_choices s)"
  by (auto simp: start_story_commit_def Let_def split: sum.splits prod.splits)

lemma choice_commit_choices:
  "choice_commit k w cs s ai = (fx, r, s', cs') \<Longrightarrow>
   story_chapter_cache cs' = story_chapter_cache cs \<and> app_stage s' = app_stage s \<and>
   (if r = Some Rerun
    then subscript ai ''next_choices'' = Inr (latest_choices s')
    else latest_choices s' = latest_choices s)"
  by (auto simp: choice_commit_def Let_def split: sum.splits prod.splits)

lemma world_forge_page_choices:
  "world_forge_page w cs s c = (fx, r, s', cs') \<Longrightarrow>
   latest_choices s' = latest_choices s \<and>
   (if r = Some Rerun
    then app_stage s' = story_start \<and> (\<exists>t a d. c = SetTheStage t a d)
    else app_stage s' = app_stage s)"
  by (auto simp: world_forge_page_def split: click.splits sum.splits prod.splits)

lemma story_start_page_choices:
  assumes "story_start_page k w cs s c = (fx, r, s', cs')"
  shows "if r = Some Rerun
    then app_stage s' = story_cycle \<and>
         (\<exists>p. c = StartTheSaga p \<and> reply_choices cs' (PStr p) = Some (latest_choices s'))
    else app_stage s' = app_stage s \<and> latest_choices s' = latest_choices s"
proof (cases c)
  case (StartTheSaga p)
  show ?thesis
  proof (cases "p = []")
    case True
    with assms StartTheSaga show ?thesis by (auto simp: story_start_page_def)
  next
    case False
    obtain gx gr gc where g: "generate_story_chapter w (story_chapter_cache cs) p (world_bible s)
        (PStr p) = (gx, gr, gc)"
      by (cases "generate_story_chapter w (story_chapter_cache cs) p (world_bible s) (PStr p)") auto
    show ?thesis
    proof (cases gr)
      case (Inl e)
      with assms StartTheSaga False g show ?thesis by (auto simp: story_start_page_def)
    next
      case (Inr ai)
      show ?thesis
      proof (cases "truthy ai")
        case nt: False
        with assms StartTheSaga False g Inr show ?thesis by (auto simp: story_start_page_def)
      next
        case True
        obtain cx where c: "start_story_commit k w (cs\<lparr>story_chapter_cache := gc\<rparr>) s p ai
            = (cx, r, s', cs')"
          using assms StartTheSaga False g Inr True
          by (auto simp: story_start_page_def split: prod.splits)
        from generate_story_chapter_stored[OF g[unfolded Inr]]
        obtain ms where "gc (PStr p) = Some (ms, ai)" by blast
        with start_story_commit_choices[OF c] StartTheSaga show ?thesis
          by (auto simp: reply_choices_def)
      qed
    qed
  qed
qed (use assms in \<open>auto simp: story_start_page_def\<close>)

lemma choice_form_choices:
  assumes "choice_form k w cs s uc = (fx, r, s', cs')"
  shows "app_stage s' = app_stage s \<and>
    (if r = Some Rerun then reply_choices cs' uc = Some (latest_choices s')
     else latest_choices s' = latest_choices s)"
proof (cases "py_join '' '' (map ch_text (story_chapters s))")
  case (Inl e)
  with assms show ?thesis by (auto simp: choice_form_def)
next
  case j: (Inr ctx)
  obtain gx gr gc where g: "generate_story_chapter w (story_chapter_cache cs) ctx (world_bible s)
      uc = (gx, gr, gc)"
    by (cases "generate_story_chapter w (story_chapter_cache cs) ctx (world_bible s) uc") auto
  show ?thesis
  proof (cases gr)
    case (Inl e)
    with assms j g show ?thesis by (auto simp: choice_form_def)
  next
    case (Inr ai)
    show ?thesis
    proof (cases "truthy ai")
      case nt: False
      with assms j g Inr show ?thesis by (auto simp: choice_form_def)
    next
      case True
      obtain cx where c: "choice_commit k w (cs\<lparr>story_chapter_cache := gc\<rparr>) s ai
          = (cx, r, s', cs')"
        using assms j g Inr True
        by (auto simp: choice_form_def split: prod.splits)
      from generate_story_chapter_stored[OF g[unfolded Inr]]
      obtain ms where "gc uc = Some (ms, ai)" by blast
      with choice_commit_choices[OF c] show ?thesis
        by (auto simp: reply_choices_def)
    qed
  qed
qed

lemma story_cycle_page_choices:
  assumes "story_cycle_page k w cs s c = (fx, r, s', cs')"
  shows "app_stage s' = app_stage s \<and>
    (if r = Some Rerun
     then (\<exists>uc. c = WeaveNextChapter uc \<and> reply_choices cs' uc = Some (latest_choices s'))
     else latest_choices s' = latest_choices s)"
proof (cases "narrate_full_saga k w s c")
  case (Inl e)
  with assms show ?thesis by (auto simp: story_cycle_page_def)
next
  case n: (Inr nx)
  show ?thesis
  proof (cases "\<exists>uc. truthy (latest_choices s) \<and> c = WeaveNextChapter uc")
    case True
    then obtain uc where uc: "truthy (latest_choices s)" "c = WeaveNextChapter uc" by blast
    obtain cx where "choice_form k w cs s uc = (cx, r, s', cs')"
      using assms n uc by (auto simp: story_cycle_page_def split: prod.splits)
    from choice_form_choices[OF this] uc show ?thesis by auto
  next
    case False
    with assms n show ?thesis
      by (auto simp: story_cycle_page_def split: click.splits if_splits)
  qed
qed

lemma stage_page_choices:
  assumes "stage_page k w cs s c = (fx, r, s', cs')" and "choices_agree s g"
  shows "if r = Some Rerun then choices_agree s' (last_choices g c \<lparr>effects = x, ending = Rerun, state = y, cache = cs'\<rparr>)
     else app_stage s' = app_stage s \<and> latest_choices s' = latest_choices s"
proof (cases "app_stage s")
  case world_forge
  with assms(1) have "world_forge_page w cs s c = (fx, r, s', cs')" by (simp add: stage_page_def)
  from world_forge_page_choices[OF this] assms(2) world_forge show ?thesis
    by (auto simp: choices_agree_def last_choices_def)
next
  case story_start
  with assms(1) have "story_start_page k w cs s c = (fx, r, s', cs')" by (simp add: stage_page_def)
  from story_start_page_choices[OF this] assms(2) story_start show ?thesis
    by (auto simp: choices_agree_def last_choices_def)
next
  case story_cycle
  with assms(1) have "story_cycle_page k w cs s c = (fx, r, s', cs')" by (simp add: stage_page_def)
  from story_cycle_page_choices[OF this] assms(2) story_cycle show ?thesis
    by (auto simp: choices_agree_def last_choices_def)
qed

lemma script_choices:
  assumes "case st of None \<Rightarrow> g = None | Some s \<Rightarrow> choices_agree s g"
  shows "case state (script k w cs st c) of
           None \<Rightarrow> last_choices g c (script k w cs st c) = None
         | Some s' \<Rightarrow> choices_agree s' (last_choices g c (script k w cs st c))"
proof (cases "key_set (google_api_key k)")
  case False
  with assms show ?thesis
    by (auto simp: script_def last_choices_def split: option.splits)
next
  case True
  let ?s = "case st of None \<Rightarrow> initial_session | Some s \<Rightarrow> s"
  have a: "choices_agree ?s g"
    using assms by (auto simp: choices_agree_def initial_session_def split: option.splits)
  obtain fx r s' cs' where p: "stage_page k w cs ?s c = (fx, r, s', cs')"
    by (cases "stage_page k w cs ?s c") auto
  note sp = stage_page_choices[OF p a]
  show ?thesis
  proof (cases r)
    case None
    with sp p True a show ?thesis
      by (auto simp: script_def Let_def last_choices_def choices_agree_def)
  next
    case (Some out)
    show ?thesis
    proof (cases "out = Rerun")
      case True
      with sp[of "effects (script k w cs st c)" "Some s'"] p Some \<open>key_set (google_api_key k)\<close>
      show ?thesis
        by (auto simp: script_def Let_def)
    next
      case False
      with sp p Some True a show ?thesis
        by (auto simp: script_def Let_def last_choices_def choices_agree_def)
    qed
  qed
qed

lemma reachable_choices:
  "reachable k st cs g \<Longrightarrow> case st of None \<Rightarrow> g = None | Some s \<Rightarrow> choices_agree s g"
proof (induction rule: reachable.induct)
  case (fresh cs)
  then show ?case by simp
next
  case (run st cs g w c)
  from script_choices[OF run.IH] show ?case .
qed

lemma script_no_rerun:
  assumes "ending (script k w cs (Some s) c) \<noteq> Rerun"
  shows "\<exists>s'. state (script k w cs (Some s) c) = Some s' \<and> latest_choices s' = latest_choices s"
proof (cases "key_set (google_api_key k)")
  case False
  then show ?thesis by (simp add: script_def)
next
  case True
  obtain fx r s' cs' where p: "stage_page k w cs s c = (fx, r, s', cs')"
    by (cases "stage_page k w cs s c") auto
  have "r \<noteq> Some Rerun" using assms p True by (auto simp: script_def Let_def)
  moreover have "c \<noteq> Restart \<or> r \<noteq> None"
    using assms p True by (cases r) (auto simp: script_def Let_def)
  moreover have "r \<noteq> Some Rerun \<Longrightarrow> latest_choices s' = latest_choices s"
    using p world_forge_page_choices[of w cs s c fx r s' cs']
      story_start_page_choices[of k w cs s c fx r s' cs']
      story_cycle_page_choices[of k w cs s c fx r s' cs']
    by (cases "app_stage s") (auto simp: stage_page_def)
  ultimately show ?thesis using p True
    by (cases r) (auto simp: script_def Let_def)
qed

section \<open>The properties\<close>

lemma try_block_failure_keeps_state:
  assumes "turn_choice c = Some uc" and "story_chapter_cache cs uc = None"
    and "generation_fails w"
  shows "state (script k w cs (Some s) c) = Some s"
proof -
  have wf: "fst (snd (snd (world_forge_page w cs s c))) = s"
    using assms(1) by (cases c) (simp_all add: world_forge_page_def)
  have "fst (snd (snd (stage_page k w cs s c))) = s"
    using wf story_start_page_fails[OF assms(3,1,2)] story_cycle_page_fails[OF assms(3,1,2)]
    by (simp add: stage_page_def split: stage.splits)
  moreover have "c \<noteq> Restart" using assms(1) by auto
  ultimately show ?thesis
    by (auto simp: script_def Let_def split: prod.splits option.splits)
qed

text \<open>
  C1 (turn atomicity). The claim asks that a turn whose generation or parsing fails change
  neither \<open>story_chapters\<close> nor \<open>latest_choices\<close>. When the try block of
  \<open>generate_story_chapter\<close> raises, the code keeps the session state
  (\<open>try_block_failure_keeps_state\<close>). When the reply is valid JSON without the key
  \<open>next_choices\<close>, which the claim counts as a parse failure, the code has no check:
  in the story cycle line 256 appends the new chapter and line 257 raises \<open>KeyError\<close>, so
  the transcript has grown by one chapter while \<open>latest_choices\<close> are those of the turn
  before; at the start of the story lines 227 and 229 append two chapters before line 230
  raises, and the stage stays \<open>story_start\<close>.
\<close>

theorem half_committed_turn:
  "ending (script text_only_keys service_without_choices empty_caches (Some saga_session)
        (WeaveNextChapter (PStr ''Wait.''))) = Crashed (KeyError ''next_choices'')
   \<and> state (script text_only_keys service_without_choices empty_caches (Some saga_session)
        (WeaveNextChapter (PStr ''Wait.''))) =
       Some \<lparr>app_stage = story_cycle, world_bible = Some ''Bored mages.'',
             story_chapters =
               [\<lparr>ch_text = PStr ''The captain woke.'', ch_image = None\<rparr>,
                \<lparr>ch_text = PStr ''A clock ticked.'', ch_image = None\<rparr>,
                \<lparr>ch_text = PStr ''Dawn.'', ch_image = None\<rparr>],
             latest_choices = PList [PStr ''Open the door.'', PStr ''Wait.'', PStr ''Sing.'']\<rparr>
   \<and> ending (script text_only_keys service_without_choices empty_caches (Some forged_session)
        (StartTheSaga ''The captain woke.'')) = Crashed (KeyError ''next_choices'')
   \<and> state (script text_only_keys service_without_choices empty_caches (Some forged_session)
        (StartTheSaga ''The captain woke.'')) =
       Some \<lparr>app_stage = story_start, world_bible = Some ''Bored mages.'',
             story_chapters =
               [\<lparr>ch_text = PStr ''The captain woke.'', ch_image = None\<rparr>,
                \<lparr>ch_text = PStr ''Dawn.'', ch_image = None\<rparr>],
             latest_choices = PList []\<rparr>"
  by (simp add: page_defs service_defs session_defs clean_replies turn_without_choices_def)

text \<open>
  C2 (parser rejection). The claim asks that a reply which is valid JSON but lacks one of
  the keys \<open>narrative_chapter\<close>, \<open>next_choices\<close>, \<open>image_prompt\<close> be rejected as a parse
  failure. The code does not: \<open>generate_story_chapter\<close> returns the decoded dict of such a
  reply without showing an error, and the handler then raises an uncaught \<open>KeyError\<close>. For
  a reply without \<open>image_prompt\<close> the run of a \<open>Weave Next Chapter\<close> click ends in
  \<open>KeyError\<close> with no element shown; for a reply without \<open>next_choices\<close> it ends in
  \<open>KeyError\<close> after the new chapter has been appended to \<open>story_chapters\<close>.
\<close>

theorem missing_key_is_passed_on:
  "generate_story_chapter_body service_without_image_prompt ctx wb uc =
     ([Call (ChapterPrompt uc ctx wb)], Inr turn_without_image_prompt)
   \<and> ending (script all_keys service_without_image_prompt empty_caches (Some saga_session)
        (WeaveNextChapter (PStr ''Wait.''))) = Crashed (KeyError ''image_prompt'')
   \<and> shown (effects (script all_keys service_without_image_prompt empty_caches
        (Some saga_session) (WeaveNextChapter (PStr ''Wait.'')))) = []
   \<and> ending (script all_keys service_without_choices empty_caches (Some saga_session)
        (WeaveNextChapter (PStr ''Wait.''))) = Crashed (KeyError ''next_choices'')
   \<and> state (script all_keys service_without_choices empty_caches (Some saga_session)
        (WeaveNextChapter (PStr ''Wait.''))) =
       Some (saga_session\<lparr>story_chapters := story_chapters saga_session @
               [\<lparr>ch_text = PStr ''Dawn.'', ch_image = None\<rparr>]\<rparr>)"
  by (simp add: page_defs service_defs session_defs clean_replies
      turn_without_image_prompt_def turn_without_choices_def)

text \<open>
  C3 (no uncaught throw on generation failure). The claim asks that a failure of
  \<open>model.generate_content\<close> be turned into a shown error and a \<open>None\<close> result. The code
  shows the error of line 88 and then evaluates \<open>response.text\<close> on line 89, where
  \<open>response\<close> was never bound: \<open>generate_story_chapter\<close> raises \<open>UnboundLocalError\<close>,
  nothing is cached, and the run of the script ends in that exception.
\<close>

theorem generation_failure_escapes:
  "generate_story_chapter_body (w\<lparr>generate_content := Inl e\<rparr>) ctx wb uc =
     ([Call (ChapterPrompt uc ctx wb), Show (ErrorProcessingAIResponse e)],
      Inl (UnboundLocalError ''response''))
   \<and> generate_story_chapter (w\<lparr>generate_content := Inl e\<rparr>) Map.empty ctx wb uc =
     ([Call (ChapterPrompt uc ctx wb), Show (ErrorProcessingAIResponse e)],
      Inl (UnboundLocalError ''response''), Map.empty)
   \<and> ending (script all_keys service_down empty_caches (Some saga_session)
        (WeaveNextChapter (PStr ''Wait.''))) = Crashed (UnboundLocalError ''response'')"
  by (simp add: page_defs service_defs session_defs)

text \<open>
  C4 (degrade, not fail, for images). The claim asks that a turn whose text was generated
  and parsed commit its chapter with no image when the image service fails. The code does
  so when no image key is configured, when \<open>requests.post\<close> raises, and when the service
  answers an HTTP error whose body is JSON. When the body of the HTTP error is not JSON,
  \<open>e.response.json()\<close> on line 125 raises inside the handler of \<open>HTTPError\<close>: the run ends
  in that exception before line 256, and no chapter is committed.
\<close>

theorem http_error_body_aborts_turn:
  "ending (script all_keys gateway_error empty_caches (Some saga_session)
        (WeaveNextChapter (PStr ''Wait.''))) = Crashed (LibraryError ''JSONDecodeError'')
   \<and> state (script all_keys gateway_error empty_caches (Some saga_session)
        (WeaveNextChapter (PStr ''Wait.''))) = Some saga_session
   \<and> state (script all_keys quota_error empty_caches (Some saga_session)
        (WeaveNextChapter (PStr ''Wait.''))) =
       Some (saga_session\<lparr>story_chapters := story_chapters saga_session @
               [\<lparr>ch_text = PStr ''Dawn.'', ch_image = None\<rparr>],
             latest_choices := PList [PStr ''Go.'', PStr ''Stay.'', PStr ''Sing.'']\<rparr>)
   \<and> state (script text_only_keys full_service empty_caches (Some saga_session)
        (WeaveNextChapter (PStr ''Wait.''))) =
       Some (saga_session\<lparr>story_chapters := story_chapters saga_session @
               [\<lparr>ch_text = PStr ''Dawn.'', ch_image = None\<rparr>],
             latest_choices := PList [PStr ''Go.'', PStr ''Stay.'', PStr ''Sing.'']\<rparr>)"
  by (simp add: page_defs service_defs session_defs clean_replies full_turn_def)

text \<open>
  C5 (parser tolerance). For every reply \<open>r\<close>, wrapping \<open>r\<close> in white space and in the
  markers \<open>```json\<close> and \<open>```\<close> of a fenced block (with any white space, also none,
  around and inside the markers), or in white space alone, does not change the cleaned
  text that is handed to \<open>json.loads\<close>, so \<open>generate_story_chapter\<close> returns the same
  value for the wrapped reply as for \<open>r\<close>.
\<close>

theorem parser_tolerance:
  assumes "list_all py_isspace ws1" and "list_all py_isspace ws2"
    and "list_all py_isspace ws3" and "list_all py_isspace ws4"
  shows "clean_reply (wrap_reply fenced ws1 ws2 ws3 ws4 r) = clean_reply r
    \<and> snd (generate_story_chapter_body
           (w\<lparr>generate_content := Inr (Inr (wrap_reply fenced ws1 ws2 ws3 ws4 r))\<rparr>) ctx wb uc)
      = snd (generate_story_chapter_body (w\<lparr>generate_content := Inr (Inr r)\<rparr>) ctx wb uc)"
  using clean_reply_wrap[OF assms, of fenced r]
  by (simp add: generate_story_chapter_body_def split: sum.splits)

theorem parser_tolerance_witness:
  "list_all py_isspace '' '' \<and> list_all py_isspace [CHR 0x0A]
   \<and> list_all py_isspace [CHR 0x0A, CHR 0x09] \<and> list_all py_isspace ''  ''
   \<and> clean_reply (wrap_reply True '' '' [CHR 0x0A] [CHR 0x0A, CHR 0x09] ''  '' full_reply)
       = clean_reply full_reply
   \<and> snd (generate_story_chapter_body
          (full_service\<lparr>generate_content :=
             Inr (Inr (wrap_reply True '' '' [CHR 0x0A] [CHR 0x0A, CHR 0x09] ''  '' full_reply))\<rparr>)
          ''The captain woke.'' None (PStr ''Wait.''))
       = snd (generate_story_chapter_body (full_service\<lparr>generate_content := Inr (Inr full_reply)\<rparr>)
          ''The captain woke.'' None (PStr ''Wait.''))
   \<and> snd (generate_story_chapter_body (full_service\<lparr>generate_content := Inr (Inr full_reply)\<rparr>)
          ''The captain woke.'' None (PStr ''Wait.'')) = Inr full_turn"
  using parser_tolerance[of "'' ''" "[CHR 0x0A]" "[CHR 0x0A, CHR 0x09]" "''  ''" True full_reply
      full_service "''The captain woke.''" None "PStr ''Wait.''"]
  by (simp add: py_isspace_def generate_story_chapter_body_def full_service_def service_env_def
      clean_full_reply)

text \<open>
  C6 (restart clears all). From every session state, a run in which the restart button is
  clicked and which reaches the button (no exception ends the run before line 267) deletes
  every key of the session state and asks for a rerun; the initialisation of the next run
  gives \<open>app_stage = "world_forge"\<close>, \<open>world_bible = None\<close>, \<open>story_chapters = []\<close> and
  \<open>latest_choices = []\<close>.
\<close>

theorem restart_clears_all:
  assumes "key_set (google_api_key k)"
    and "\<forall>e. ending (script k w cs st Restart) \<noteq> Crashed e"
  shows "ending (script k w cs st Restart) = Rerun
    \<and> state (script k w cs st Restart) = None
    \<and> state (script k w' cs' (state (script k w cs st Restart)) NoClick) =
        Some \<lparr>app_stage = world_forge, world_bible = None, story_chapters = [],
              latest_choices = PList []\<rparr>"
proof -
  let ?s = "case st of None \<Rightarrow> initial_session | Some s \<Rightarrow> s"
  obtain fx r s' cs2 where p: "stage_page k w cs ?s Restart = (fx, r, s', cs2)"
    by (cases "stage_page k w cs ?s Restart") auto
  from stage_page_restart[OF p] assms p have "r = None"
    by (auto simp: script_def Let_def)
  with p assms(1) have 1: "ending (script k w cs st Restart) = Rerun"
    and 2: "state (script k w cs st Restart) = None"
    by (simp_all add: script_def Let_def)
  have "state (script k w' cs' None NoClick) = Some initial_session"
    using assms(1)
    by (simp add: script_def Let_def stage_page_def initial_session_def world_forge_page_def)
  with 1 2 show ?thesis by (simp add: initial_session_def)
qed

theorem restart_clears_all_witness:
  "key_set (google_api_key text_only_keys)
   \<and> (\<forall>e. ending (script text_only_keys service_down empty_caches (Some saga_session) Restart)
          \<noteq> Crashed e)
   \<and> ending (script text_only_keys service_down empty_caches (Some saga_session) Restart) = Rerun
   \<and> state (script text_only_keys service_down empty_caches (Some saga_session) Restart) = None
   \<and> state (script text_only_keys full_service opened_caches
        (state (script text_only_keys service_down empty_caches (Some saga_session) Restart))
        NoClick) =
       Some \<lparr>app_stage = world_forge, world_bible = None, story_chapters = [],
             latest_choices = PList []\<rparr>"
  using restart_clears_all[of text_only_keys service_down empty_caches "Some saga_session"
      full_service opened_caches]
  by (simp add: page_defs session_defs)

text \<open>
  C7 (story context). In the story cycle, a \<open>Weave Next Chapter\<close> click on a transcript
  whose texts are the strings \<open>ts\<close> calls \<open>generate_story_chapter\<close> with the story context
  \<open>" ".join(ts)\<close>, the texts in transcript order with one space between them; at the start
  of the story, a \<open>Start the Saga\<close> click with the opening sentence \<open>p\<close> calls it with \<open>p\<close>
  as the context. The prompt sent to the model carries exactly that context (the model is
  called when the chapter is not in the cache, and not at all when it is).
\<close>

theorem story_context_construction:
  assumes "key_set (google_api_key k)"
  shows "(app_stage s = story_cycle \<and> truthy (latest_choices s)
          \<and> map ch_text (story_chapters s) = map PStr ts \<longrightarrow>
          chapter_prompts (effects (script k w cs (Some s) (WeaveNextChapter uc))) =
            (if story_chapter_cache cs uc = None
             then [ChapterPrompt uc (str_join '' '' ts) (world_bible s)] else []))
       \<and> (app_stage s = story_start \<and> p \<noteq> [] \<longrightarrow>
          chapter_prompts (effects (script k w cs (Some s) (StartTheSaga p))) =
            (if story_chapter_cache cs (PStr p) = None
             then [ChapterPrompt (PStr p) p (world_bible s)] else []))"
proof (intro conjI impI)
  assume a: "app_stage s = story_cycle \<and> truthy (latest_choices s)
          \<and> map ch_text (story_chapters s) = map PStr ts"
  then have "narrate_full_saga k w s (WeaveNextChapter uc) = Inr []"
    by (simp add: narrate_full_saga_def py_join_PStr)
  with a have "fst (stage_page k w cs s (WeaveNextChapter uc)) = fst (choice_form k w cs s uc)"
    by (simp add: stage_page_def story_cycle_page_def split: prod.splits)
  with a show "chapter_prompts (effects (script k w cs (Some s) (WeaveNextChapter uc))) =
            (if story_chapter_cache cs uc = None
             then [ChapterPrompt uc (str_join '' '' ts) (world_bible s)] else [])"
    by (simp only: effects_script[OF assms] chapter_prompts_choice_form)
next
  assume a: "app_stage s = story_start \<and> p \<noteq> []"
  then have "fst (stage_page k w cs s (StartTheSaga p)) = fst (story_start_page k w cs s (StartTheSaga p))"
    by (simp add: stage_page_def)
  moreover from a have pne: "p \<noteq> []" by simp
  ultimately show "chapter_prompts (effects (script k w cs (Some s) (StartTheSaga p))) =
            (if story_chapter_cache cs (PStr p) = None
             then [ChapterPrompt (PStr p) p (world_bible s)] else [])"
    by (simp only: effects_script[OF assms] chapter_prompts_story_start[OF pne])
qed

theorem story_context_construction_witness:
  "key_set (google_api_key text_only_keys)
   \<and> (app_stage saga_session = story_cycle \<and> truthy (latest_choices saga_session)
      \<and> map ch_text (story_chapters saga_session)
          = map PStr [''The captain woke.'', ''A clock ticked.''])
   \<and> chapter_prompts (effects (script text_only_keys service_down empty_caches
        (Some saga_session) (WeaveNextChapter (PStr ''Wait.'')))) =
       [ChapterPrompt (PStr ''Wait.'') ''The captain woke. A clock ticked.''
          (Some ''Bored mages.'')]
   \<and> (app_stage forged_session = story_start \<and> ''The captain woke.'' \<noteq> [])
   \<and> chapter_prompts (effects (script text_only_keys service_down empty_caches
        (Some forged_session) (StartTheSaga ''The captain woke.''))) =
       [ChapterPrompt (PStr ''The captain woke.'') ''The captain woke.''
          (Some ''Bored mages.'')]"
  using story_context_construction[of text_only_keys saga_session
      "[''The captain woke.'', ''A clock ticked.'']" service_down empty_caches "PStr ''Wait.''"
      "''The captain woke.''"]
    story_context_construction[of text_only_keys forged_session "[]" service_down empty_caches
      "PStr ''Wait.''" "''The captain woke.''"]
  by (simp add: session_defs)

text \<open>
  C9 (fatal missing text credential). When \<open>GOOGLE_API_KEY\<close> is \<open>None\<close> or empty, every run
  of the script shows the error of line 43, which names the Google key, and stops on line
  44 with the session state and the caches untouched. When it is set, no run is stopped,
  whatever the image and speech keys are, and the first run of a session goes through to
  the end with the initial session state; a missing speech key only shows the warning of
  line 47.
\<close>

theorem missing_text_credential_is_fatal:
  "(\<not> key_set (google_api_key k) \<longrightarrow>
      script k w cs st c =
        \<lparr>effects = [Show GoogleKeyNotFound], ending = Stopped, state = st, cache = cs\<rparr>)
   \<and> (key_set (google_api_key k) \<longrightarrow>
      ending (script k w cs st c) \<noteq> Stopped
      \<and> script k w cs None NoClick =
        \<lparr>effects = (if key_set (elevenlabs_api_key k) then [] else [Show ElevenLabsKeyNotFound]),
         ending = Completed, state = Some initial_session, cache = cs\<rparr>)"
proof -
  have "ending (script k w cs st c) \<noteq> Stopped" if "key_set (google_api_key k)"
    using that stage_page_not_stopped[of k w cs "case st of None \<Rightarrow> initial_session | Some s \<Rightarrow> s" c]
    by (auto simp: script_def Let_def split: prod.splits option.splits)
  moreover have "script k w cs None NoClick =
        \<lparr>effects = (if key_set (elevenlabs_api_key k) then [] else [Show ElevenLabsKeyNotFound]),
         ending = Completed, state = Some initial_session, cache = cs\<rparr>" if "key_set (google_api_key k)"
    using that
    by (simp add: script_def Let_def stage_page_def initial_session_def world_forge_page_def)
  ultimately show ?thesis by (simp add: script_def)
qed

theorem missing_text_credential_is_fatal_witness:
  "\<not> key_set (google_api_key no_text_key)
   \<and> script no_text_key full_service empty_caches None NoClick =
       \<lparr>effects = [Show GoogleKeyNotFound], ending = Stopped, state = None,
        cache = empty_caches\<rparr>
   \<and> key_set (google_api_key text_only_keys)
   \<and> ending (script text_only_keys full_service empty_caches None NoClick) \<noteq> Stopped
   \<and> script text_only_keys full_service empty_caches None NoClick =
       \<lparr>effects = [Show ElevenLabsKeyNotFound], ending = Completed,
        state = Some initial_session, cache = empty_caches\<rparr>"
  using missing_text_credential_is_fatal[of no_text_key full_service empty_caches None NoClick]
    missing_text_credential_is_fatal[of text_only_keys full_service empty_caches None NoClick]
  by (simp add: no_text_key_def text_only_keys_def)

text \<open>
  C10 (memoization ignores context). The cache key of \<open>generate_story_chapter\<close> is
  \<open>user_choice\<close> alone. After a call that returned a value \<open>v\<close>, every later call with the
  same \<open>user_choice\<close>, whatever its story context, its world bible and the state of the
  services, returns \<open>v\<close> from the cache, leaves the cache as it is and does not call the
  model. (A call that raised has cached nothing.)
\<close>

theorem memoization_ignores_context:
  assumes "generate_story_chapter w1 c ctx1 wb1 uc = (fx1, Inr v, c1)"
  shows "snd (generate_story_chapter w2 c1 ctx2 wb2 uc) = (Inr v, c1)
    \<and> chapter_prompts (fst (generate_story_chapter w2 c1 ctx2 wb2 uc)) = []"
  using assms
  by (auto simp: generate_story_chapter_def cache_data_def split: option.splits sum.splits)

theorem memoization_ignores_context_witness:
  "generate_story_chapter full_service Map.empty ''The captain woke.'' (Some ''Bored mages.'')
       (PStr ''Wait.'') =
     ([Call (ChapterPrompt (PStr ''Wait.'') ''The captain woke.'' (Some ''Bored mages.''))],
      Inr full_turn, [PStr ''Wait.'' \<mapsto> ([], full_turn)])
   \<and> snd (generate_story_chapter service_down [PStr ''Wait.'' \<mapsto> ([], full_turn)]
        ''A clock ticked.'' (Some ''Idle gods.'') (PStr ''Wait.'')) =
       (Inr full_turn, [PStr ''Wait.'' \<mapsto> ([], full_turn)])
   \<and> chapter_prompts (fst (generate_story_chapter service_down
        [PStr ''Wait.'' \<mapsto> ([], full_turn)] ''A clock ticked.'' (Some ''Idle gods.'')
        (PStr ''Wait.''))) = []"
proof -
  have first: "generate_story_chapter full_service Map.empty ''The captain woke.''
       (Some ''Bored mages.'') (PStr ''Wait.'') =
     ([Call (ChapterPrompt (PStr ''Wait.'') ''The captain woke.'' (Some ''Bored mages.''))],
      Inr full_turn, [PStr ''Wait.'' \<mapsto> ([], full_turn)])"
    by (simp add: generate_story_chapter_def generate_story_chapter_body_def cache_data_def
        full_service_def service_env_def clean_full_reply)
  from first memoization_ignores_context[OF first, of service_down "''A clock ticked.''"
      "Some ''Idle gods.''"]
  show ?thesis by simp
qed


lemma forged_run:
  "script text_only_keys bible_service empty_caches None
     (SetTheStage ''Revenge'' ''The Outcast'' ''Boredom'') =
   \<lparr>effects = [Show ElevenLabsKeyNotFound,
               Call (WorldBiblePrompt ''Revenge'' ''The Outcast'' ''Boredom'')],
    ending = Rerun, state = Some forged_session, cache = forged_caches\<rparr>"
  by (simp add: page_defs service_defs session_defs)

lemma stalled_run:
  "script text_only_keys service_no_choices forged_caches (Some forged_session)
     (StartTheSaga ''The captain woke.'') =
   \<lparr>effects = [Show ElevenLabsKeyNotFound,
               Call (ChapterPrompt (PStr ''The captain woke.'') ''The captain woke.''
                 (Some ''Bored mages.'')),
               Show StabilityKeyNotFound],
    ending = Rerun, state = Some stalled_session, cache = stalled_caches\<rparr>"
  by (simp add: page_defs service_defs session_defs clean_replies turn_no_choices_def)

lemma opened_run:
  "script text_only_keys full_service forged_caches (Some forged_session)
     (StartTheSaga ''The captain woke.'') =
   \<lparr>effects = [Show ElevenLabsKeyNotFound,
               Call (ChapterPrompt (PStr ''The captain woke.'') ''The captain woke.''
                 (Some ''Bored mages.'')),
               Show StabilityKeyNotFound],
    ending = Rerun, state = Some opened_session, cache = opened_caches\<rparr>"
  by (simp add: page_defs service_defs session_defs clean_replies full_turn_def)

lemma forged_reachable: "reachable text_only_keys (Some forged_session) forged_caches None"
  using reachable.run[OF reachable.fresh, of text_only_keys bible_service empty_caches
      "SetTheStage ''Revenge'' ''The Outcast'' ''Boredom''"]
  by (simp add: forged_run last_choices_def)

lemma stalled_reachable:
  "reachable text_only_keys (Some stalled_session) stalled_caches (Some (PList []))"
  using reachable.run[OF forged_reachable, of service_no_choices "StartTheSaga ''The captain woke.''"]
  by (simp add: stalled_run last_choices_def reply_choices_def stalled_caches_def turn_no_choices_def)

lemma opened_reachable:
  "reachable text_only_keys (Some opened_session) opened_caches
     (Some (PList [PStr ''Go.'', PStr ''Stay.'', PStr ''Sing.'']))"
  using reachable.run[OF forged_reachable, of full_service "StartTheSaga ''The captain woke.''"]
  by (simp add: opened_run last_choices_def reply_choices_def opened_caches_def full_turn_def)

lemma down_run:
  "script text_only_keys service_down opened_caches (Some opened_session)
        (WeaveNextChapter (PStr ''Go.'')) =
   \<lparr>effects = [Show ElevenLabsKeyNotFound,
               Call (ChapterPrompt (PStr ''Go.'') ''The captain woke. Dawn.''
                 (Some ''Bored mages.'')),
               Show (ErrorProcessingAIResponse (LibraryError ''503 Service Unavailable''))],
    ending = Crashed (UnboundLocalError ''response''), state = Some opened_session,
    cache = opened_caches\<rparr>"
  by (simp add: page_defs service_defs session_defs)

text \<open>
  C8 (pending choices), as the code has it. In every state that runs of the script can
  reach, \<open>latest_choices\<close> in the story cycle is the \<open>next_choices\<close> value of the reply of
  the most recent successful turn, whatever that value is (the code does not ask it to be
  non-empty), and before the story cycle it is the empty list and no turn has succeeded;
  a run that does not end in \<open>st.rerun()\<close>, a failed turn among them, leaves
  \<open>latest_choices\<close> as it was.
\<close>

theorem pending_choices_invariant:
  assumes "reachable k (Some s) cs g"
  shows "(app_stage s = story_cycle \<longrightarrow> g = Some (latest_choices s))
    \<and> (app_stage s \<noteq> story_cycle \<longrightarrow> g = None \<and> latest_choices s = PList [])
    \<and> (ending (script k w cs (Some s) c) \<noteq> Rerun \<longrightarrow>
         (\<exists>s'. state (script k w cs (Some s) c) = Some s'
               \<and> latest_choices s' = latest_choices s))"
  using reachable_choices[OF assms] script_no_rerun[of k w cs s c]
  by (auto simp: choices_agree_def split: if_splits)

theorem pending_choices_invariant_witness:
  "reachable text_only_keys (Some opened_session) opened_caches
     (Some (PList [PStr ''Go.'', PStr ''Stay.'', PStr ''Sing.'']))
   \<and> app_stage opened_session = story_cycle
   \<and> latest_choices opened_session = PList [PStr ''Go.'', PStr ''Stay.'', PStr ''Sing.'']
   \<and> ending (script text_only_keys service_down opened_caches (Some opened_session)
        (WeaveNextChapter (PStr ''Go.''))) \<noteq> Rerun
   \<and> state (script text_only_keys service_down opened_caches (Some opened_session)
        (WeaveNextChapter (PStr ''Go.''))) = Some opened_session"
proof -
  note inv = pending_choices_invariant[OF opened_reachable, of service_down
      "WeaveNextChapter (PStr ''Go.'')"]
  have a: "app_stage opened_session = story_cycle"
    by (simp add: opened_session_def)
  from inv a have "Some (PList [PStr ''Go.'', PStr ''Stay.'', PStr ''Sing.'']) =
      Some (latest_choices opened_session)"
    by blast
  then have l: "latest_choices opened_session = PList [PStr ''Go.'', PStr ''Stay.'', PStr ''Sing.'']"
    by simp
  have e: "ending (script text_only_keys service_down opened_caches (Some opened_session)
        (WeaveNextChapter (PStr ''Go.''))) \<noteq> Rerun"
    by (simp add: down_run)
  have s: "state (script text_only_keys service_down opened_caches (Some opened_session)
        (WeaveNextChapter (PStr ''Go.''))) = Some opened_session"
    by (simp add: down_run)
  from opened_reachable a l e s show ?thesis by blast
qed

theorem pending_choices_empty_counterexample:
  "reachable text_only_keys (Some stalled_session) stalled_caches (Some (PList []))
   \<and> app_stage stalled_session = story_cycle
   \<and> latest_choices stalled_session = PList []"
proof -
  have "app_stage stalled_session = story_cycle" "latest_choices stalled_session = PList []"
    by (simp_all add: stalled_session_def)
  with stalled_reachable show ?thesis by blast
qed

end
